theory Spec2Isabelle
  imports Main "HOL-Library.Word" "HOL-Library.AList"
begin

section \<open>The request facade of work\_order\_wrap.cpp\<close>

text \<open>
  The source file holds one function, \<open>HandleWorkOrderRequest\<close>. Everything it calls
  lives in other translation units: \<open>tcf::enclave_api::base::GetReadyEnclave\<close>, the type
  \<open>tcf::enclave_queue::ReadyEnclave\<close> (its \<open>getIndex\<close> and its destructor), the two
  functions of \<open>tcf::enclave_api::workorder\<close> and \<open>ThrowTCFError\<close>. They are parameters of
  the model, collected in one record. The process-wide state they work on is a type
  variable \<open>'w\<close>; \<open>'x\<close> is the type of C++ exceptions, \<open>'e\<close> is \<open>tcf_err_t\<close> and \<open>'r\<close> is
  \<open>ReadyEnclave\<close>.

  \<^item> \<open>GetReadyEnclave\<close> either throws (\<open>Inl\<close>) or yields the \<open>ReadyEnclave\<close> object.
  \<^item> \<open>getIndex\<close> is a getter: it reads the object and changes nothing.
  \<^item> The two work order functions return their \<open>tcf_err_t\<close> together with the values they
    leave in the reference parameters (\<open>uint32_t&\<close>, \<open>size_t&\<close>, \<open>Base64EncodedString&\<close>).
  \<^item> \<open>ThrowTCFError\<close> returns normally (\<open>None\<close>) or throws (\<open>Some\<close>).
  \<^item> \<open>uint32_t\<close> is \<open>32 word\<close>. The \<open>size_t\<close> argument and the \<open>int\<close> index are only handed
    on, never computed with, and are a \<open>nat\<close> and an \<open>int\<close>.
\<close>

record ('w, 'x, 'e, 'r) collaborators =
  GetReadyEnclave :: "'w \<Rightarrow> ('x + 'r) \<times> 'w"
  getIndex :: "'r \<Rightarrow> int"
  ReadyEnclave_dtor :: "'r \<Rightarrow> 'w \<Rightarrow> 'w"
  workorder_HandleWorkOrderRequest ::
    "string \<Rightarrow> string \<Rightarrow> int \<Rightarrow> 'w \<Rightarrow> ('e \<times> 32 word \<times> nat) \<times> 'w"
  workorder_GetSerializedResponse ::
    "string \<Rightarrow> 32 word \<Rightarrow> nat \<Rightarrow> int \<Rightarrow> 'w \<Rightarrow> ('e \<times> string) \<times> 'w"
  ThrowTCFError :: "'e \<Rightarrow> 'w \<Rightarrow> 'x option"

text \<open>
  Every call that leaves the function is recorded, with the arguments it is given, in the
  order in which it happens.
\<close>

datatype ('e, 'r) call =
    Call_GetReadyEnclave
  | Call_HandleWorkOrderRequest string string int
  | Call_GetSerializedResponse string "32 word" nat int
  | Call_ThrowTCFError 'e
  | Call_ReadyEnclave_dtor 'r

fun is_submit :: "('e, 'r) call \<Rightarrow> bool" where
  "is_submit (Call_HandleWorkOrderRequest _ _ _) = True"
| "is_submit _ = False"

fun is_fetch :: "('e, 'r) call \<Rightarrow> bool" where
  "is_fetch (Call_GetSerializedResponse _ _ _ _) = True"
| "is_fetch _ = False"

fun is_dtor :: "('e, 'r) call \<Rightarrow> bool" where
  "is_dtor (Call_ReadyEnclave_dtor _) = True"
| "is_dtor _ = False"

text \<open>
  The statements of the function after \<open>readyEnclave\<close> is initialised, that is, the
  part of the block in which the object is alive (lines 41 to 56). The result is the
  exception that leaves the block (\<open>Inl\<close>) or the returned string (\<open>Inr\<close>), the calls made
  and the state they leave.
\<close>

definition HandleWorkOrderRequest_body ::
  "('w, 'x, 'e, 'r) collaborators \<Rightarrow> 'r \<Rightarrow> string \<Rightarrow> string \<Rightarrow> 'w
     \<Rightarrow> ('x + string) \<times> ('e, 'r) call list \<times> 'w" where
  "HandleWorkOrderRequest_body C readyEnclave sealed_signup_data serialized_request w1 =
     (case workorder_HandleWorkOrderRequest C sealed_signup_data serialized_request
             (getIndex C readyEnclave) w1 of
        ((presult, response_identifier, response_size), w2) \<Rightarrow>
          (case ThrowTCFError C presult w2 of
             Some x \<Rightarrow>
               (Inl x,
                [Call_HandleWorkOrderRequest sealed_signup_data serialized_request
                   (getIndex C readyEnclave),
                 Call_ThrowTCFError presult],
                w2)
           | None \<Rightarrow>
               (case workorder_GetSerializedResponse C sealed_signup_data response_identifier
                       response_size (getIndex C readyEnclave) w2 of
                  ((presult', response), w3) \<Rightarrow>
                    (case ThrowTCFError C presult' w3 of
                       Some x \<Rightarrow>
                         (Inl x,
                          [Call_HandleWorkOrderRequest sealed_signup_data serialized_request
                             (getIndex C readyEnclave),
                           Call_ThrowTCFError presult,
                           Call_GetSerializedResponse sealed_signup_data response_identifier
                             response_size (getIndex C readyEnclave),
                           Call_ThrowTCFError presult'],
                          w3)
                     | None \<Rightarrow>
                         (Inr response,
                          [Call_HandleWorkOrderRequest sealed_signup_data serialized_request
                             (getIndex C readyEnclave),
                           Call_ThrowTCFError presult,
                           Call_GetSerializedResponse sealed_signup_data response_identifier
                             response_size (getIndex C readyEnclave),
                           Call_ThrowTCFError presult'],
                          w3)))))"

text \<open>
  The whole function. \<open>readyEnclave\<close> is a local object with a destructor: when the block is
  left, by \<open>return\<close> or by the exception of \<open>ThrowTCFError\<close>, its destructor runs, after
  everything else. When \<open>GetReadyEnclave\<close> itself throws there is no object and no
  destructor call.
\<close>

definition HandleWorkOrderRequest ::
  "('w, 'x, 'e, 'r) collaborators \<Rightarrow> string \<Rightarrow> string \<Rightarrow> 'w
     \<Rightarrow> ('x + string) \<times> ('e, 'r) call list \<times> 'w" where
  "HandleWorkOrderRequest C sealed_signup_data serialized_request w0 =
     (case GetReadyEnclave C w0 of
        (Inl x, w1) \<Rightarrow> (Inl x, [Call_GetReadyEnclave], w1)
      | (Inr readyEnclave, w1) \<Rightarrow>
          (case HandleWorkOrderRequest_body C readyEnclave sealed_signup_data
                  serialized_request w1 of
             (result, calls, w') \<Rightarrow>
               (result,
                Call_GetReadyEnclave # calls @ [Call_ReadyEnclave_dtor readyEnclave],
                ReadyEnclave_dtor C readyEnclave w')))"

text \<open>
  The call as the caller sees it. Both parameters are \<open>const std::string&\<close>: references
  to two buffers that the caller owns. The function reads a buffer each time it passes
  it on, and no statement of it writes to either; the caller has the buffers back when
  the call is over.
\<close>

record caller_buffers =
  sealed_signup_data_buffer :: string
  serialized_request_buffer :: string

definition HandleWorkOrderRequest_call ::
  "('w, 'x, 'e, 'r) collaborators \<Rightarrow> caller_buffers \<Rightarrow> 'w
     \<Rightarrow> (('x + string) \<times> ('e, 'r) call list \<times> 'w) \<times> caller_buffers" where
  "HandleWorkOrderRequest_call C buffers w0 =
     (HandleWorkOrderRequest C (sealed_signup_data_buffer buffers)
        (serialized_request_buffer buffers) w0,
      buffers)"

section \<open>The core behind the facade: pool, response store, processor\<close>

text \<open>
  The enclave pool, the work order processor and the response store are not part of the
  source file; only the facade's calls into them are. The definitions of this section
  follow sections 3, 4 and 7 of the specification.
\<close>

text \<open>Modelled from the spec: the error taxonomy of section 7 (no source file declares it).
  \<open>ComputationError\<close> carries the enclave-internal status code.\<close>

datatype core_error =
    PoolExhausted
  | InvalidHandle
  | ComputationError int
  | UnknownResponse
  | SizeMismatch

text \<open>Modelled from the spec: the state of the core (sections 2 and 3); the classes that hold
  it are missing. \<open>ready\<close> is the queue of free enclave handles, \<open>held\<close> the handles
  handed out and not yet released, \<open>staged\<close> the response store keyed by response
  identifier, and \<open>next_id\<close> the next identifier the store gives out (an unsigned 32-bit
  integer, as the facade's \<open>uint32_t response_identifier\<close>).\<close>

record core_state =
  ready :: "int list"
  held :: "int list"
  staged :: "(32 word \<times> string) list"
  next_id :: "32 word"

text \<open>Modelled from the spec: \<open>acquire() -> EnclaveHandle\<close> of section 4.1, in its fail-fast
  variant: with no ready instance it fails with \<open>PoolExhausted\<close>; otherwise the first ready
  handle becomes held.\<close>

definition acquire :: "core_state \<Rightarrow> (core_error + int) \<times> core_state" where
  "acquire s =
     (case ready s of
        [] \<Rightarrow> (Inl PoolExhausted, s)
      | h # hs \<Rightarrow> (Inr h, s\<lparr>ready := hs, held := h # held s\<rparr>))"

text \<open>Modelled from the spec: \<open>release(handle)\<close> of section 4.1. A held handle goes back to
  the end of the ready queue; a release without a matching acquire is erroneous
  (\<open>InvalidHandle\<close>, a misuse of the interface) and changes nothing.\<close>

definition release :: "int \<Rightarrow> core_state \<Rightarrow> (core_error + unit) \<times> core_state" where
  "release h s =
     (if h \<in> set (held s)
      then (Inr (), s\<lparr>ready := ready s @ [h], held := remove1 h (held s)\<rparr>)
      else (Inl InvalidHandle, s))"

text \<open>Modelled from the spec: \<open>put(bytes) -> ResponseIdentifier\<close> of section 4.3. The bytes
  are staged under the identifier \<open>next_id\<close>, which then advances (modulo \<open>2 ^ 32\<close>). An
  identifier comes back only after \<open>2 ^ 32\<close> further puts; an entry that is still staged
  under it then is replaced.\<close>

definition put_store :: "string \<Rightarrow> core_state \<Rightarrow> 32 word \<times> core_state" where
  "put_store bytes s =
     (next_id s,
      s\<lparr>staged := AList.update (next_id s) bytes (staged s), next_id := next_id s + 1\<rparr>)"

text \<open>Modelled from the spec: \<open>take(id) -> bytes | fails with UnknownResponse\<close> of section
  4.3. A successful take removes the entry.\<close>

definition take_store :: "32 word \<Rightarrow> core_state \<Rightarrow> (core_error + string) \<times> core_state" where
  "take_store rid s =
     (case map_of (staged s) rid of
        None \<Rightarrow> (Inl UnknownResponse, s)
      | Some bytes \<Rightarrow> (Inr bytes, s\<lparr>staged := AList.delete rid (staged s)\<rparr>))"

text \<open>Modelled from the spec: \<open>submit(handle, sealed_signup_data, serialized_request)\<close> of
  section 4.2. The trusted computation is outside the core and is the parameter
  \<open>compute\<close>: it yields an enclave status code (\<open>Inl\<close>) or the raw response bytes. A failed
  submit stages nothing.\<close>

definition submit ::
  "(int \<Rightarrow> string \<Rightarrow> string \<Rightarrow> int + string) \<Rightarrow> int \<Rightarrow> string \<Rightarrow> string \<Rightarrow> core_state
     \<Rightarrow> (core_error + 32 word \<times> nat) \<times> core_state" where
  "submit compute h sealed_signup_data serialized_request s =
     (if h \<notin> set (held s) then (Inl InvalidHandle, s)
      else
        (case compute h sealed_signup_data serialized_request of
           Inl status \<Rightarrow> (Inl (ComputationError status), s)
         | Inr bytes \<Rightarrow>
             (case put_store bytes s of
                (rid, s') \<Rightarrow> (Inr (rid, length bytes), s'))))"

text \<open>Modelled from the spec: \<open>fetch(handle, response_id, expected_size)\<close> of section 4.2,
  with the error conditions in the order the section lists them. The text-safe encoding
  is outside the core and is the parameter \<open>encode\<close>. Only a successful fetch takes the
  entry out of the store.\<close>

definition fetch ::
  "(string \<Rightarrow> string) \<Rightarrow> int \<Rightarrow> 32 word \<Rightarrow> nat \<Rightarrow> core_state
     \<Rightarrow> (core_error + string) \<times> core_state" where
  "fetch encode h rid expected_size s =
     (if h \<notin> set (held s) then (Inl InvalidHandle, s)
      else
        (case map_of (staged s) rid of
           None \<Rightarrow> (Inl UnknownResponse, s)
         | Some bytes \<Rightarrow>
             if length bytes \<noteq> expected_size then (Inl SizeMismatch, s)
             else
               (case take_store rid s of
                  (Inl e, s') \<Rightarrow> (Inl e, s')
                | (Inr bytes', s') \<Rightarrow> (Inr (encode bytes'), s'))))"

subsection \<open>The facade over the core\<close>

text \<open>
  The core as the collaborators of the facade. A \<open>ReadyEnclave\<close> is the acquired handle,
  its destructor is \<open>release\<close>, \<open>tcf_err_t\<close> is \<open>None\<close> for success or the error, and
  \<open>ThrowTCFError\<close> throws exactly the error it is given. The fetch of the specification
  has no use for the sealed signup data it is handed.
\<close>

definition core_collaborators ::
  "(int \<Rightarrow> string \<Rightarrow> string \<Rightarrow> int + string) \<Rightarrow> (string \<Rightarrow> string)
     \<Rightarrow> (core_state, core_error, core_error option, int) collaborators" where
  "core_collaborators compute encode =
     \<lparr> GetReadyEnclave = acquire,
       getIndex = (\<lambda>h. h),
       ReadyEnclave_dtor = (\<lambda>h s. snd (release h s)),
       workorder_HandleWorkOrderRequest =
         (\<lambda>sealed_signup_data serialized_request h s.
            case submit compute h sealed_signup_data serialized_request s of
              (Inl e, s') \<Rightarrow> ((Some e, 0, 0), s')
            | (Inr (rid, n), s') \<Rightarrow> ((None, rid, n), s')),
       workorder_GetSerializedResponse =
         (\<lambda>sealed_signup_data rid n h s.
            case fetch encode h rid n s of
              (Inl e, s') \<Rightarrow> ((Some e, []), s')
            | (Inr response, s') \<Rightarrow> ((None, response), s')),
       ThrowTCFError = (\<lambda>e s. e) \<rparr>"

text \<open>Modelled from the spec: \<open>handle_work_order\<close> of section 4.4, the facade composed with
  the pool, the processor and the store.\<close>

definition handle_work_order ::
  "(int \<Rightarrow> string \<Rightarrow> string \<Rightarrow> int + string) \<Rightarrow> (string \<Rightarrow> string) \<Rightarrow> string \<Rightarrow> string
     \<Rightarrow> core_state
     \<Rightarrow> (core_error + string) \<times> (core_error option, int) call list \<times> core_state" where
  "handle_work_order compute encode sealed_signup_data serialized_request s =
     HandleWorkOrderRequest (core_collaborators compute encode)
       sealed_signup_data serialized_request s"

text \<open>
  A stub trusted computation and a stub encoding, for running the core: the enclave
  rejects an empty request with status \<open>1\<close> and otherwise answers with the request
  reversed; the encoding doubles every byte.
\<close>

definition stub_compute :: "int \<Rightarrow> string \<Rightarrow> string \<Rightarrow> int + string" where
  "stub_compute h sealed_signup_data serialized_request =
     (if serialized_request = [] then Inl 1 else Inr (rev serialized_request))"

definition stub_encode :: "string \<Rightarrow> string" where
  "stub_encode bytes = concat (map (\<lambda>c. [c, c]) bytes)"

definition pool2 :: core_state where
  "pool2 = \<lparr> ready = [0, 1], held = [], staged = [], next_id = 0 \<rparr>"

text \<open>
  The same core with a store that keeps nothing: every staged response is evicted as soon
  as submit is over (the eviction of section 4.3 with no waiting time), so that the fetch
  of the facade finds nothing.
\<close>

definition evicting_collaborators ::
  "(core_state, core_error, core_error option, int) collaborators" where
  "evicting_collaborators =
     (core_collaborators stub_compute stub_encode)
       \<lparr> workorder_HandleWorkOrderRequest :=
           (\<lambda>sealed_signup_data serialized_request h s.
              case workorder_HandleWorkOrderRequest (core_collaborators stub_compute stub_encode)
                     sealed_signup_data serialized_request h s of
                (out, s') \<Rightarrow> (out, s'\<lparr>staged := []\<rparr>)) \<rparr>"

definition pool0 :: core_state where
  "pool0 = \<lparr> ready = [], held = [], staged = [], next_id = 0 \<rparr>"

section \<open>The facade: which calls it makes, and with what\<close>

text \<open>
  The block has three ways out: the first \<open>ThrowTCFError\<close> throws, the second one throws,
  or the function returns the response.
\<close>

lemma body_cases:
  obtains
    (submit_fails) e rid n w2 x where
      "workorder_HandleWorkOrderRequest C sealed req (getIndex C r) w1 = ((e, rid, n), w2)"
      "ThrowTCFError C e w2 = Some x"
      "HandleWorkOrderRequest_body C r sealed req w1 =
         (Inl x, [Call_HandleWorkOrderRequest sealed req (getIndex C r), Call_ThrowTCFError e], w2)"
  | (fetch_fails) e rid n w2 e' resp w3 x where
      "workorder_HandleWorkOrderRequest C sealed req (getIndex C r) w1 = ((e, rid, n), w2)"
      "ThrowTCFError C e w2 = None"
      "workorder_GetSerializedResponse C sealed rid n (getIndex C r) w2 = ((e', resp), w3)"
      "ThrowTCFError C e' w3 = Some x"
      "HandleWorkOrderRequest_body C r sealed req w1 =
         (Inl x, [Call_HandleWorkOrderRequest sealed req (getIndex C r), Call_ThrowTCFError e,
                  Call_GetSerializedResponse sealed rid n (getIndex C r), Call_ThrowTCFError e'], w3)"
  | (success) e rid n w2 e' resp w3 where
      "workorder_HandleWorkOrderRequest C sealed req (getIndex C r) w1 = ((e, rid, n), w2)"
      "ThrowTCFError C e w2 = None"
      "workorder_GetSerializedResponse C sealed rid n (getIndex C r) w2 = ((e', resp), w3)"
      "ThrowTCFError C e' w3 = None"
      "HandleWorkOrderRequest_body C r sealed req w1 =
         (Inr resp, [Call_HandleWorkOrderRequest sealed req (getIndex C r), Call_ThrowTCFError e,
                  Call_GetSerializedResponse sealed rid n (getIndex C r), Call_ThrowTCFError e'], w3)"
proof -
  obtain e rid n w2 where s: "workorder_HandleWorkOrderRequest C sealed req (getIndex C r) w1 = ((e, rid, n), w2)"
    by (metis prod.exhaust)
  show thesis
  proof (cases "ThrowTCFError C e w2")
    case (Some x)
    with s show thesis
      by (intro submit_fails[of e rid n w2 x]) (simp_all add: HandleWorkOrderRequest_body_def)
  next
    case None
    obtain e' resp w3 where f: "workorder_GetSerializedResponse C sealed rid n (getIndex C r) w2 = ((e', resp), w3)"
      by (metis prod.exhaust)
    show thesis
    proof (cases "ThrowTCFError C e' w3")
      case (Some x)
      with s None f show thesis
        by (intro fetch_fails[of e rid n w2 e' resp w3 x]) (simp_all add: HandleWorkOrderRequest_body_def)
    next
      case N2: None
      with s None f show thesis
        by (intro success[of e rid n w2 e' resp w3]) (simp_all add: HandleWorkOrderRequest_body_def)
    qed
  qed
qed

lemma body_no_dtor: "filter is_dtor (fst (snd (HandleWorkOrderRequest_body C r sealed req w1))) = []"
  by (cases rule: body_cases[of C sealed req r w1]) simp_all

lemma facade_acquired:
  "GetReadyEnclave C w0 = (Inr r, w1) \<Longrightarrow>
   HandleWorkOrderRequest C sealed req w0 =
     (fst (HandleWorkOrderRequest_body C r sealed req w1),
      Call_GetReadyEnclave # fst (snd (HandleWorkOrderRequest_body C r sealed req w1)) @ [Call_ReadyEnclave_dtor r],
      ReadyEnclave_dtor C r (snd (snd (HandleWorkOrderRequest_body C r sealed req w1))))"
  by (simp add: HandleWorkOrderRequest_def split: prod.splits)

lemma facade_not_acquired:
  "GetReadyEnclave C w0 = (Inl x, w1) \<Longrightarrow>
   HandleWorkOrderRequest C sealed req w0 = (Inl x, [Call_GetReadyEnclave], w1)"
  by (simp add: HandleWorkOrderRequest_def)

text \<open>
  Claim C1. Whenever \<open>GetReadyEnclave\<close> hands out a \<open>ReadyEnclave\<close>, every run of
  \<open>HandleWorkOrderRequest\<close> ends with the destructor of that object, whatever the outcome
  (response returned, submit failed, fetch failed): the destructor call is the last call
  of the run, it is the only destructor call, and the final state is the destructor
  applied to the state the block left. The destructor is what gives the handle back to
  the pool (section 2 of the specification: release is implicit on scope exit).
\<close>

theorem handle_released_on_every_exit:
  assumes "GetReadyEnclave C w0 = (Inr r, w1)"
  shows "last (fst (snd (HandleWorkOrderRequest C sealed req w0))) = Call_ReadyEnclave_dtor r
       \<and> filter is_dtor (fst (snd (HandleWorkOrderRequest C sealed req w0))) = [Call_ReadyEnclave_dtor r]
       \<and> snd (snd (HandleWorkOrderRequest C sealed req w0)) =
           ReadyEnclave_dtor C r (snd (snd (HandleWorkOrderRequest_body C r sealed req w1)))"
  by (simp add: facade_acquired[OF assms] body_no_dtor)


text \<open>
  How a step that fails ends the run, and what a step that passes leads to.
\<close>

lemma facade_submit_fails:
  assumes "GetReadyEnclave C w0 = (Inr r, w1)"
      and "workorder_HandleWorkOrderRequest C sealed req (getIndex C r) w1 = ((e, rid, n), w2)"
      and "ThrowTCFError C e w2 = Some x"
  shows "HandleWorkOrderRequest C sealed req w0 =
           (Inl x,
            [Call_GetReadyEnclave, Call_HandleWorkOrderRequest sealed req (getIndex C r),
             Call_ThrowTCFError e, Call_ReadyEnclave_dtor r],
            ReadyEnclave_dtor C r w2)"
  using assms by (simp add: HandleWorkOrderRequest_def HandleWorkOrderRequest_body_def)

lemma facade_fetch_done:
  assumes "GetReadyEnclave C w0 = (Inr r, w1)"
      and "workorder_HandleWorkOrderRequest C sealed req (getIndex C r) w1 = ((e, rid, n), w2)"
      and "ThrowTCFError C e w2 = None"
      and "workorder_GetSerializedResponse C sealed rid n (getIndex C r) w2 = ((e', resp), w3)"
  shows "HandleWorkOrderRequest C sealed req w0 =
           ((case ThrowTCFError C e' w3 of Some x \<Rightarrow> Inl x | None \<Rightarrow> Inr resp),
            [Call_GetReadyEnclave, Call_HandleWorkOrderRequest sealed req (getIndex C r),
             Call_ThrowTCFError e, Call_GetSerializedResponse sealed rid n (getIndex C r),
             Call_ThrowTCFError e', Call_ReadyEnclave_dtor r],
            ReadyEnclave_dtor C r w3)"
  using assms
  by (simp add: HandleWorkOrderRequest_def HandleWorkOrderRequest_body_def split: option.splits)

text \<open>
  A run that ends in an exception is one of three runs.
\<close>

lemma facade_failure_cases:
  assumes "HandleWorkOrderRequest C sealed req w0 = (Inl x, calls, w')"
  shows "(\<exists>w1. GetReadyEnclave C w0 = (Inl x, w1) \<and> calls = [Call_GetReadyEnclave] \<and> w' = w1)
       \<or> (\<exists>r w1 e rid n w2.
             GetReadyEnclave C w0 = (Inr r, w1)
           \<and> workorder_HandleWorkOrderRequest C sealed req (getIndex C r) w1 = ((e, rid, n), w2)
           \<and> ThrowTCFError C e w2 = Some x
           \<and> calls = [Call_GetReadyEnclave,
                       Call_HandleWorkOrderRequest sealed req (getIndex C r),
                       Call_ThrowTCFError e,
                       Call_ReadyEnclave_dtor r]
           \<and> w' = ReadyEnclave_dtor C r w2)
       \<or> (\<exists>r w1 e rid n w2 e' resp w3.
             GetReadyEnclave C w0 = (Inr r, w1)
           \<and> workorder_HandleWorkOrderRequest C sealed req (getIndex C r) w1 = ((e, rid, n), w2)
           \<and> ThrowTCFError C e w2 = None
           \<and> workorder_GetSerializedResponse C sealed rid n (getIndex C r) w2 = ((e', resp), w3)
           \<and> ThrowTCFError C e' w3 = Some x
           \<and> calls = [Call_GetReadyEnclave,
                       Call_HandleWorkOrderRequest sealed req (getIndex C r),
                       Call_ThrowTCFError e,
                       Call_GetSerializedResponse sealed rid n (getIndex C r),
                       Call_ThrowTCFError e',
                       Call_ReadyEnclave_dtor r]
           \<and> w' = ReadyEnclave_dtor C r w3)"
proof -
  obtain a w1 where g: "GetReadyEnclave C w0 = (a, w1)"
    by (cases "GetReadyEnclave C w0")
  show ?thesis
  proof (cases a)
    case (Inl y)
    with g assms show ?thesis
      by (simp add: facade_not_acquired)
  next
    case (Inr r)
    with g have acq: "GetReadyEnclave C w0 = (Inr r, w1)" by simp
    note fa = facade_acquired[OF acq, of sealed req]
    show ?thesis
    proof (cases rule: body_cases[of C sealed req r w1])
      case (submit_fails e rid n w2 y)
      with fa assms acq show ?thesis by simp
    next
      case (fetch_fails e rid n w2 e' resp w3 y)
      with fa assms acq show ?thesis by simp
    next
      case (success e rid n w2 e' resp w3)
      with fa assms show ?thesis by simp
    qed
  qed
qed

text \<open>
  Claim C2. The error of the first step that fails is the outcome of the run, and nothing
  is tried after it.
  \<^item> When \<open>GetReadyEnclave\<close> throws \<open>xa\<close>, the run ends in \<open>xa\<close> and no other call is made.
  \<^item> When the submit call returns a code \<open>eb\<close> for which \<open>ThrowTCFError\<close> throws \<open>xb\<close>, the
    run ends in \<open>xb\<close>: \<open>ThrowTCFError\<close> is handed \<open>eb\<close> as returned, the fetch call is not
    made, submit is not called again, and the destructor is the only call that follows.
  \<^item> When submit passes and the fetch call returns a code \<open>ec'\<close> for which \<open>ThrowTCFError\<close>
    throws \<open>xc\<close>, the run ends in \<open>xc\<close>, with one submit and one fetch call and no response.
  \<^item> Conversely, a run that ends in an exception \<open>x\<close> is one of these three runs.
\<close>

theorem first_error_propagated_no_retry:
  "(GetReadyEnclave C wa = (Inl xa, wa1) \<longrightarrow>
      HandleWorkOrderRequest C sealed reqa wa = (Inl xa, [Call_GetReadyEnclave], wa1))
 \<and> (GetReadyEnclave C wb = (Inr rb, wb1)
      \<and> workorder_HandleWorkOrderRequest C sealed reqb (getIndex C rb) wb1 = ((eb, ridb, nb), wb2)
      \<and> ThrowTCFError C eb wb2 = Some xb \<longrightarrow>
      HandleWorkOrderRequest C sealed reqb wb =
        (Inl xb,
         [Call_GetReadyEnclave, Call_HandleWorkOrderRequest sealed reqb (getIndex C rb),
          Call_ThrowTCFError eb, Call_ReadyEnclave_dtor rb],
         ReadyEnclave_dtor C rb wb2))
 \<and> (GetReadyEnclave C wc = (Inr rc, wc1)
      \<and> workorder_HandleWorkOrderRequest C sealed reqc (getIndex C rc) wc1 = ((ec, ridc, nc), wc2)
      \<and> ThrowTCFError C ec wc2 = None
      \<and> workorder_GetSerializedResponse C sealed ridc nc (getIndex C rc) wc2 = ((ec', respc), wc3)
      \<and> ThrowTCFError C ec' wc3 = Some xc \<longrightarrow>
      HandleWorkOrderRequest C sealed reqc wc =
        (Inl xc,
         [Call_GetReadyEnclave, Call_HandleWorkOrderRequest sealed reqc (getIndex C rc),
          Call_ThrowTCFError ec, Call_GetSerializedResponse sealed ridc nc (getIndex C rc),
          Call_ThrowTCFError ec', Call_ReadyEnclave_dtor rc],
         ReadyEnclave_dtor C rc wc3))
 \<and> (HandleWorkOrderRequest C sealed req w0 = (Inl x, calls, w') \<longrightarrow>
      (\<exists>w1. GetReadyEnclave C w0 = (Inl x, w1) \<and> calls = [Call_GetReadyEnclave] \<and> w' = w1)
    \<or> (\<exists>r w1 e rid n w2.
          GetReadyEnclave C w0 = (Inr r, w1)
        \<and> workorder_HandleWorkOrderRequest C sealed req (getIndex C r) w1 = ((e, rid, n), w2)
        \<and> ThrowTCFError C e w2 = Some x
        \<and> calls = [Call_GetReadyEnclave,
                    Call_HandleWorkOrderRequest sealed req (getIndex C r),
                    Call_ThrowTCFError e,
                    Call_ReadyEnclave_dtor r]
        \<and> w' = ReadyEnclave_dtor C r w2)
    \<or> (\<exists>r w1 e rid n w2 e' resp w3.
          GetReadyEnclave C w0 = (Inr r, w1)
        \<and> workorder_HandleWorkOrderRequest C sealed req (getIndex C r) w1 = ((e, rid, n), w2)
        \<and> ThrowTCFError C e w2 = None
        \<and> workorder_GetSerializedResponse C sealed rid n (getIndex C r) w2 = ((e', resp), w3)
        \<and> ThrowTCFError C e' w3 = Some x
        \<and> calls = [Call_GetReadyEnclave,
                    Call_HandleWorkOrderRequest sealed req (getIndex C r),
                    Call_ThrowTCFError e,
                    Call_GetSerializedResponse sealed rid n (getIndex C r),
                    Call_ThrowTCFError e',
                    Call_ReadyEnclave_dtor r]
        \<and> w' = ReadyEnclave_dtor C r w3))"
proof (intro conjI impI)
  assume "GetReadyEnclave C wa = (Inl xa, wa1)"
  then show "HandleWorkOrderRequest C sealed reqa wa = (Inl xa, [Call_GetReadyEnclave], wa1)"
    by (rule facade_not_acquired)
next
  assume "GetReadyEnclave C wb = (Inr rb, wb1)
      \<and> workorder_HandleWorkOrderRequest C sealed reqb (getIndex C rb) wb1 = ((eb, ridb, nb), wb2)
      \<and> ThrowTCFError C eb wb2 = Some xb"
  then show "HandleWorkOrderRequest C sealed reqb wb =
        (Inl xb,
         [Call_GetReadyEnclave, Call_HandleWorkOrderRequest sealed reqb (getIndex C rb),
          Call_ThrowTCFError eb, Call_ReadyEnclave_dtor rb],
         ReadyEnclave_dtor C rb wb2)"
    by (blast intro: facade_submit_fails)
next
  assume c: "GetReadyEnclave C wc = (Inr rc, wc1)
      \<and> workorder_HandleWorkOrderRequest C sealed reqc (getIndex C rc) wc1 = ((ec, ridc, nc), wc2)
      \<and> ThrowTCFError C ec wc2 = None
      \<and> workorder_GetSerializedResponse C sealed ridc nc (getIndex C rc) wc2 = ((ec', respc), wc3)
      \<and> ThrowTCFError C ec' wc3 = Some xc"
  then have "HandleWorkOrderRequest C sealed reqc wc =
           ((case ThrowTCFError C ec' wc3 of Some x \<Rightarrow> Inl x | None \<Rightarrow> Inr respc),
            [Call_GetReadyEnclave, Call_HandleWorkOrderRequest sealed reqc (getIndex C rc),
             Call_ThrowTCFError ec, Call_GetSerializedResponse sealed ridc nc (getIndex C rc),
             Call_ThrowTCFError ec', Call_ReadyEnclave_dtor rc],
            ReadyEnclave_dtor C rc wc3)"
    by (blast intro: facade_fetch_done)
  with c show "HandleWorkOrderRequest C sealed reqc wc =
        (Inl xc,
         [Call_GetReadyEnclave, Call_HandleWorkOrderRequest sealed reqc (getIndex C rc),
          Call_ThrowTCFError ec, Call_GetSerializedResponse sealed ridc nc (getIndex C rc),
          Call_ThrowTCFError ec', Call_ReadyEnclave_dtor rc],
         ReadyEnclave_dtor C rc wc3)"
    by simp
next
  assume "HandleWorkOrderRequest C sealed req w0 = (Inl x, calls, w')"
  then show "(\<exists>w1. GetReadyEnclave C w0 = (Inl x, w1) \<and> calls = [Call_GetReadyEnclave] \<and> w' = w1)
    \<or> (\<exists>r w1 e rid n w2.
          GetReadyEnclave C w0 = (Inr r, w1)
        \<and> workorder_HandleWorkOrderRequest C sealed req (getIndex C r) w1 = ((e, rid, n), w2)
        \<and> ThrowTCFError C e w2 = Some x
        \<and> calls = [Call_GetReadyEnclave,
                    Call_HandleWorkOrderRequest sealed req (getIndex C r),
                    Call_ThrowTCFError e,
                    Call_ReadyEnclave_dtor r]
        \<and> w' = ReadyEnclave_dtor C r w2)
    \<or> (\<exists>r w1 e rid n w2 e' resp w3.
          GetReadyEnclave C w0 = (Inr r, w1)
        \<and> workorder_HandleWorkOrderRequest C sealed req (getIndex C r) w1 = ((e, rid, n), w2)
        \<and> ThrowTCFError C e w2 = None
        \<and> workorder_GetSerializedResponse C sealed rid n (getIndex C r) w2 = ((e', resp), w3)
        \<and> ThrowTCFError C e' w3 = Some x
        \<and> calls = [Call_GetReadyEnclave,
                    Call_HandleWorkOrderRequest sealed req (getIndex C r),
                    Call_ThrowTCFError e,
                    Call_GetSerializedResponse sealed rid n (getIndex C r),
                    Call_ThrowTCFError e',
                    Call_ReadyEnclave_dtor r]
        \<and> w' = ReadyEnclave_dtor C r w3)"
    by (rule facade_failure_cases)
qed

text \<open>
  The facade hands the two strings on as tokens: re-encoding them inside the collaborators
  is the same as re-encoding them before the call.
\<close>

lemma facade_recoded:
  "fst (HandleWorkOrderRequest
          (C\<lparr> workorder_HandleWorkOrderRequest :=
                 (\<lambda>s q. workorder_HandleWorkOrderRequest C (g s) (h q)),
               workorder_GetSerializedResponse :=
                 (\<lambda>s. workorder_GetSerializedResponse C (g s)) \<rparr>) sealed req w0)
     = fst (HandleWorkOrderRequest C (g sealed) (h req) w0)
   \<and> snd (snd (HandleWorkOrderRequest
          (C\<lparr> workorder_HandleWorkOrderRequest :=
                 (\<lambda>s q. workorder_HandleWorkOrderRequest C (g s) (h q)),
               workorder_GetSerializedResponse :=
                 (\<lambda>s. workorder_GetSerializedResponse C (g s)) \<rparr>) sealed req w0))
     = snd (snd (HandleWorkOrderRequest C (g sealed) (h req) w0))"
  by (auto simp: HandleWorkOrderRequest_def HandleWorkOrderRequest_body_def
      split: prod.splits sum.splits option.splits)

text \<open>
  Claim C8. Let an enclave be acquired, and name what the submit collaborator returns when
  applied to the contents of the caller's two buffers, and what the fetch collaborator
  returns when applied to the contents of the sealed signup data buffer. Then
  \<^item> the whole call is determined by these two applications: it fails with the exception
    of the submit code if there is one, and otherwise ends as the fetch application says;
  \<^item> the caller's buffers after the call are the buffers before the call;
  \<^item> the facade does not look into the strings: for any re-encodings \<open>g\<close> and \<open>h\<close>,
    collaborators that re-encode what they are handed see, from the facade, exactly what
    the plain collaborators see when the caller re-encodes the buffers first. A facade
    that altered or inspected a buffer on the way would break this equation.
\<close>

theorem inputs_passed_through_unchanged:
  assumes "GetReadyEnclave C w0 = (Inr r, w1)"
      and "workorder_HandleWorkOrderRequest C (sealed_signup_data_buffer buffers)
             (serialized_request_buffer buffers) (getIndex C r) w1 = ((e, rid, n), w2)"
      and "workorder_GetSerializedResponse C (sealed_signup_data_buffer buffers) rid n
             (getIndex C r) w2 = ((e', resp), w3)"
  shows "HandleWorkOrderRequest_call C buffers w0 =
           ((case ThrowTCFError C e w2 of
               Some x \<Rightarrow>
                 (Inl x,
                  [Call_GetReadyEnclave,
                   Call_HandleWorkOrderRequest (sealed_signup_data_buffer buffers)
                     (serialized_request_buffer buffers) (getIndex C r),
                   Call_ThrowTCFError e, Call_ReadyEnclave_dtor r],
                  ReadyEnclave_dtor C r w2)
             | None \<Rightarrow>
                 ((case ThrowTCFError C e' w3 of Some x \<Rightarrow> Inl x | None \<Rightarrow> Inr resp),
                  [Call_GetReadyEnclave,
                   Call_HandleWorkOrderRequest (sealed_signup_data_buffer buffers)
                     (serialized_request_buffer buffers) (getIndex C r),
                   Call_ThrowTCFError e,
                   Call_GetSerializedResponse (sealed_signup_data_buffer buffers) rid n
                     (getIndex C r),
                   Call_ThrowTCFError e', Call_ReadyEnclave_dtor r],
                  ReadyEnclave_dtor C r w3)),
            buffers)
       \<and> snd (HandleWorkOrderRequest_call C buffers w0) = buffers
       \<and> fst (fst (HandleWorkOrderRequest_call
            (C\<lparr> workorder_HandleWorkOrderRequest :=
                   (\<lambda>s q. workorder_HandleWorkOrderRequest C (g s) (h q)),
                 workorder_GetSerializedResponse :=
                   (\<lambda>s. workorder_GetSerializedResponse C (g s)) \<rparr>) buffers w0))
         = fst (fst (HandleWorkOrderRequest_call C
             \<lparr> sealed_signup_data_buffer = g (sealed_signup_data_buffer buffers),
               serialized_request_buffer = h (serialized_request_buffer buffers) \<rparr> w0))
       \<and> snd (snd (fst (HandleWorkOrderRequest_call
            (C\<lparr> workorder_HandleWorkOrderRequest :=
                   (\<lambda>s q. workorder_HandleWorkOrderRequest C (g s) (h q)),
                 workorder_GetSerializedResponse :=
                   (\<lambda>s. workorder_GetSerializedResponse C (g s)) \<rparr>) buffers w0)))
         = snd (snd (fst (HandleWorkOrderRequest_call C
             \<lparr> sealed_signup_data_buffer = g (sealed_signup_data_buffer buffers),
               serialized_request_buffer = h (serialized_request_buffer buffers) \<rparr> w0)))"
proof (cases "ThrowTCFError C e w2")
  case (Some x)
  from facade_submit_fails[OF assms(1) assms(2) Some] Some show ?thesis
    by (simp add: HandleWorkOrderRequest_call_def facade_recoded)
next
  case None
  from facade_fetch_done[OF assms(1) assms(2) None assms(3)] None show ?thesis
    by (simp add: HandleWorkOrderRequest_call_def facade_recoded)
qed

text \<open>
  Claim C9. Let an enclave \<open>r\<close> be acquired and let the submit call pass, leaving the
  identifier \<open>rid\<close> and the size \<open>n\<close> in its reference parameters and the state \<open>w2\<close>. Then
  the run is the one given by the fetch collaborator applied to exactly \<open>rid\<close>, \<open>n\<close> and
  the index \<open>getIndex\<close> of \<open>r\<close>, in \<open>w2\<close>: its exception or its response is the result, the
  state it leaves is the one the destructor works on, and the fetch call is recorded with
  these arguments after a submit call with the same index. The run depends on the fetch
  collaborator at this one point only: any other fetch function with the same answer there
  gives the same run.
\<close>

theorem fetch_arguments_from_acquire_and_submit:
  assumes "GetReadyEnclave C w0 = (Inr r, w1)"
      and "workorder_HandleWorkOrderRequest C sealed req (getIndex C r) w1 = ((e, rid, n), w2)"
      and "ThrowTCFError C e w2 = None"
      and "workorder_GetSerializedResponse C sealed rid n (getIndex C r) w2 = ((e', resp), w3)"
      and "F sealed rid n (getIndex C r) w2 = ((e', resp), w3)"
  shows "HandleWorkOrderRequest C sealed req w0 =
           ((case ThrowTCFError C e' w3 of Some x \<Rightarrow> Inl x | None \<Rightarrow> Inr resp),
            [Call_GetReadyEnclave, Call_HandleWorkOrderRequest sealed req (getIndex C r),
             Call_ThrowTCFError e, Call_GetSerializedResponse sealed rid n (getIndex C r),
             Call_ThrowTCFError e', Call_ReadyEnclave_dtor r],
            ReadyEnclave_dtor C r w3)
       \<and> HandleWorkOrderRequest (C\<lparr> workorder_GetSerializedResponse := F \<rparr>) sealed req w0 =
           HandleWorkOrderRequest C sealed req w0"
proof -
  have run: "HandleWorkOrderRequest C sealed req w0 =
           ((case ThrowTCFError C e' w3 of Some x \<Rightarrow> Inl x | None \<Rightarrow> Inr resp),
            [Call_GetReadyEnclave, Call_HandleWorkOrderRequest sealed req (getIndex C r),
             Call_ThrowTCFError e, Call_GetSerializedResponse sealed rid n (getIndex C r),
             Call_ThrowTCFError e', Call_ReadyEnclave_dtor r],
            ReadyEnclave_dtor C r w3)"
    using assms(1-4) by (rule facade_fetch_done)
  have "HandleWorkOrderRequest (C\<lparr> workorder_GetSerializedResponse := F \<rparr>) sealed req w0 =
           ((case ThrowTCFError C e' w3 of Some x \<Rightarrow> Inl x | None \<Rightarrow> Inr resp),
            [Call_GetReadyEnclave, Call_HandleWorkOrderRequest sealed req (getIndex C r),
             Call_ThrowTCFError e, Call_GetSerializedResponse sealed rid n (getIndex C r),
             Call_ThrowTCFError e', Call_ReadyEnclave_dtor r],
            ReadyEnclave_dtor C r w3)"
    using facade_fetch_done[of "C\<lparr> workorder_GetSerializedResponse := F \<rparr>" w0 r w1
            sealed req e rid n w2 e' resp w3] assms
    by simp
  with run show ?thesis
    by simp
qed

text \<open>
  The facade asks the fetch collaborator only about the sealed signup data it was given.
\<close>

lemma facade_fetch_independent:
  assumes "\<forall>rid n i w. F sealed rid n i w = workorder_GetSerializedResponse C sealed rid n i w"
  shows "HandleWorkOrderRequest (C\<lparr> workorder_GetSerializedResponse := F \<rparr>) sealed req w0 =
         HandleWorkOrderRequest C sealed req w0"
  using assms
  by (auto simp: HandleWorkOrderRequest_def HandleWorkOrderRequest_body_def
      split: prod.splits sum.splits option.splits)

text \<open>
  Claim C10. Let an enclave be acquired and let the submit call, applied to the
  \<open>sealed_signup_data\<close> of the invocation, pass. Then the result and the final state of
  the run are determined by the fetch collaborator applied to that same
  \<open>sealed_signup_data\<close> (with the identifier, size and index of the run): the sealed signup
  data is an argument of the fetch call as it is of the submit call, and each of the two
  calls is made once. The run asks the fetch collaborator about no other first argument:
  a fetch function that agrees with it on \<open>sealed_signup_data\<close> gives the same run. (The
  \<open>fetch\<close> of the specification takes handle, identifier and size only.)
\<close>

theorem fetch_receives_sealed_signup_data:
  assumes "GetReadyEnclave C w0 = (Inr r, w1)"
      and "workorder_HandleWorkOrderRequest C sealed req (getIndex C r) w1 = ((e, rid, n), w2)"
      and "ThrowTCFError C e w2 = None"
      and "workorder_GetSerializedResponse C sealed rid n (getIndex C r) w2 = ((e', resp), w3)"
      and "\<forall>rid' n' i w. F sealed rid' n' i w = workorder_GetSerializedResponse C sealed rid' n' i w"
  shows "fst (HandleWorkOrderRequest C sealed req w0) =
           (case ThrowTCFError C e' w3 of Some x \<Rightarrow> Inl x | None \<Rightarrow> Inr resp)
       \<and> snd (snd (HandleWorkOrderRequest C sealed req w0)) = ReadyEnclave_dtor C r w3
       \<and> filter is_fetch (fst (snd (HandleWorkOrderRequest C sealed req w0))) =
           [Call_GetSerializedResponse sealed rid n (getIndex C r)]
       \<and> filter is_submit (fst (snd (HandleWorkOrderRequest C sealed req w0))) =
           [Call_HandleWorkOrderRequest sealed req (getIndex C r)]
       \<and> HandleWorkOrderRequest (C\<lparr> workorder_GetSerializedResponse := F \<rparr>) sealed req w0 =
           HandleWorkOrderRequest C sealed req w0"
  using facade_fetch_done[OF assms(1-4)] facade_fetch_independent[where F = F and C = C and sealed = sealed and req = req
      and ?w0.0 = w0] assms(5)
  by simp


section \<open>The core: response store, processor and pool\<close>

text \<open>
  What \<open>put\<close> stages is found under the identifier it returns.
\<close>

lemma map_of_staged_put:
  "map_of (staged (snd (put_store bytes s))) (fst (put_store bytes s)) = Some bytes"
  by (simp add: put_store_def update_conv')

text \<open>
  Claim C4. For every byte sequence and every state of the store, taking the identifier
  that \<open>put\<close> returned, from the store that \<open>put\<close> left, yields exactly the bytes that
  were put.
\<close>

theorem take_put_roundtrip:
  "fst (take_store (fst (put_store bytes s)) (snd (put_store bytes s))) = Inr bytes"
  by (simp add: take_store_def map_of_staged_put)

lemma take_store_unstaged:
  "map_of (staged s) rid = None \<Longrightarrow> take_store rid s = (Inl UnknownResponse, s)"
  by (simp add: take_store_def)

lemma fetch_unstaged:
  "map_of (staged s) rid = None \<Longrightarrow> h \<in> set (held s) \<Longrightarrow>
   fetch encode h rid n s = (Inl UnknownResponse, s)"
  by (simp add: fetch_def)

lemma take_store_consumes:
  "take_store rid s = (Inr bytes, s') \<Longrightarrow> map_of (staged s') rid = None"
  by (auto simp: take_store_def delete_conv' split: option.splits)

lemma fetch_consumes:
  "fetch encode h rid n s = (Inr response, s') \<Longrightarrow> map_of (staged s') rid = None"
  by (auto simp: fetch_def take_store_def delete_conv' split: option.splits if_splits)

text \<open>
  Claim C5. Let \<open>s'\<close> be the state after a successful take or a successful fetch of the
  identifier \<open>rid\<close>, or a state in which \<open>rid\<close> is not staged at all. Then a take of \<open>rid\<close>
  in \<open>s'\<close> fails with \<open>UnknownResponse\<close>, and so does a fetch of \<open>rid\<close> through any held
  handle, with any expected size; the failed call changes nothing.
\<close>

theorem retrieval_exactly_once:
  assumes "take_store rid s = (Inr bytes, s')
         \<or> fetch encode h rid n s = (Inr response, s')
         \<or> (map_of (staged s) rid = None \<and> s' = s)"
  shows "take_store rid s' = (Inl UnknownResponse, s')
       \<and> (h' \<in> set (held s') \<longrightarrow> fetch encode h' rid n' s' = (Inl UnknownResponse, s'))"
proof -
  from assms have "map_of (staged s') rid = None"
    by (auto dest: take_store_consumes fetch_consumes)
  then show ?thesis
    by (simp add: take_store_unstaged fetch_unstaged)
qed

lemma fetch_size_mismatch:
  "h \<in> set (held s) \<Longrightarrow> map_of (staged s) rid = Some bytes \<Longrightarrow> expected_size \<noteq> length bytes \<Longrightarrow>
   fetch encode h rid expected_size s = (Inl SizeMismatch, s)"
  by (auto simp: fetch_def)

lemma submit_stages:
  "submit compute h sealed req s = (Inr (rid, n), s') \<Longrightarrow>
   h \<in> set (held s') \<and> (\<exists>bytes. map_of (staged s') rid = Some bytes \<and> length bytes = n)"
  by (auto simp: submit_def put_store_def update_conv' split: if_splits sum.splits)

text \<open>
  Claim C6. After a successful submit that returned the identifier \<open>rid\<close> and the size
  \<open>n\<close>, a fetch through the same handle with an expected size other than \<open>n\<close> fails with
  \<open>SizeMismatch\<close>; it returns no response data and leaves the state as it was, the
  response still staged.
\<close>

theorem fetch_wrong_size_fails:
  assumes "submit compute h sealed req s = (Inr (rid, n), s')"
      and "expected_size \<noteq> n"
  shows "fetch encode h rid expected_size s' = (Inl SizeMismatch, s')
       \<and> map_of (staged s') rid \<noteq> None"
proof -
  from submit_stages[OF assms(1)] obtain bytes where
    "h \<in> set (held s')" "map_of (staged s') rid = Some bytes" "length bytes = n"
    by blast
  with assms(2) show ?thesis
    by (simp add: fetch_size_mismatch)
qed

lemma submit_fails_unchanged:
  "submit compute h sealed req s = (Inl e, s') \<Longrightarrow> s' = s"
  by (auto simp: submit_def put_store_def split: if_splits sum.splits)

lemma acquire_release:
  "acquire s = (Inr h, s1) \<Longrightarrow> snd (release h s1) = s\<lparr>ready := rotate1 (ready s)\<rparr>"
  by (cases "ready s") (auto simp: acquire_def release_def)

text \<open>
  Claim C7. When the pool hands out the handle \<open>h\<close> and the submit step fails with the
  error \<open>e\<close>, \<open>handle_work_order\<close> fails with \<open>e\<close>, makes no fetch call, and leaves the
  state it started from except that the ready queue is rotated by one place: \<open>h\<close> is
  ready again, the held handles are as before, and the response store and its next
  identifier are untouched (no response identifier was created).
\<close>

theorem submit_failure_atomic:
  assumes "acquire s = (Inr h, s1)"
      and "submit compute h sealed req s1 = (Inl e, s2)"
  shows "handle_work_order compute encode sealed req s =
           (Inl e,
            [Call_GetReadyEnclave, Call_HandleWorkOrderRequest sealed req h,
             Call_ThrowTCFError (Some e), Call_ReadyEnclave_dtor h],
            s\<lparr>ready := rotate1 (ready s)\<rparr>)
       \<and> h \<in> set (rotate1 (ready s))"
proof -
  from assms(2) have s2: "s2 = s1"
    by (rule submit_fails_unchanged)
  from assms(1) have rel: "snd (release h s1) = s\<lparr>ready := rotate1 (ready s)\<rparr>"
    by (rule acquire_release)
  from assms(1) have mem: "h \<in> set (rotate1 (ready s))"
    by (cases "ready s") (auto simp: acquire_def)
  from assms s2 rel mem show ?thesis
    by (simp add: handle_work_order_def HandleWorkOrderRequest_def
        HandleWorkOrderRequest_body_def core_collaborators_def)
qed

section \<open>Runs on a pool of two enclaves\<close>

text \<open>
  Running the facade over the core with the stub computation, on a pool of two enclaves.
\<close>

lemmas core_defs =
  handle_work_order_def HandleWorkOrderRequest_def HandleWorkOrderRequest_body_def
  core_collaborators_def acquire_def release_def submit_def fetch_def put_store_def
  take_store_def stub_compute_def stub_encode_def pool2_def

theorem handle_released_on_every_exit_witness:
  "GetReadyEnclave (core_collaborators stub_compute stub_encode) pool2 =
     (Inr 0, \<lparr>ready = [1], held = [0], staged = [], next_id = 0\<rparr>)
   \<and> last (fst (snd (HandleWorkOrderRequest (core_collaborators stub_compute stub_encode)
                       ''seal'' [] pool2))) = Call_ReadyEnclave_dtor 0
   \<and> filter is_dtor (fst (snd (HandleWorkOrderRequest
                       (core_collaborators stub_compute stub_encode) ''seal'' [] pool2))) =
       [Call_ReadyEnclave_dtor 0]
   \<and> snd (snd (HandleWorkOrderRequest (core_collaborators stub_compute stub_encode)
                  ''seal'' [] pool2)) =
       \<lparr>ready = [1, 0], held = [], staged = [], next_id = 0\<rparr>"
proof -
  have h: "GetReadyEnclave (core_collaborators stub_compute stub_encode) pool2 =
             (Inr 0, \<lparr>ready = [1], held = [0], staged = [], next_id = 0\<rparr>)"
    by (simp add: core_defs)
  show ?thesis
    using h handle_released_on_every_exit [OF h, of "''seal''" "[]"]
    by (simp add: core_defs)
qed

theorem first_error_propagated_no_retry_witness:
  "HandleWorkOrderRequest evicting_collaborators ''seal'' ''abc'' pool0 =
     (Inl PoolExhausted, [Call_GetReadyEnclave], pool0)
   \<and> HandleWorkOrderRequest evicting_collaborators ''seal'' [] pool2 =
     (Inl (ComputationError 1),
      [Call_GetReadyEnclave, Call_HandleWorkOrderRequest ''seal'' [] 0,
       Call_ThrowTCFError (Some (ComputationError 1)), Call_ReadyEnclave_dtor 0],
      \<lparr>ready = [1, 0], held = [], staged = [], next_id = 0\<rparr>)
   \<and> HandleWorkOrderRequest evicting_collaborators ''seal'' ''abc'' pool2 =
     (Inl UnknownResponse,
      [Call_GetReadyEnclave, Call_HandleWorkOrderRequest ''seal'' ''abc'' 0,
       Call_ThrowTCFError None, Call_GetSerializedResponse ''seal'' 0 3 0,
       Call_ThrowTCFError (Some UnknownResponse), Call_ReadyEnclave_dtor 0],
      \<lparr>ready = [1, 0], held = [], staged = [], next_id = 1\<rparr>)"
proof -
  have a: "GetReadyEnclave evicting_collaborators pool0 = (Inl PoolExhausted, pool0)"
    by (simp add: evicting_collaborators_def pool0_def core_defs)
  have g: "GetReadyEnclave evicting_collaborators pool2 =
             (Inr 0, \<lparr>ready = [1], held = [0], staged = [], next_id = 0\<rparr>)"
    by (simp add: evicting_collaborators_def core_defs)
  have b: "workorder_HandleWorkOrderRequest evicting_collaborators ''seal'' []
             (getIndex evicting_collaborators 0)
             \<lparr>ready = [1], held = [0], staged = [], next_id = 0\<rparr> =
           ((Some (ComputationError 1), 0, 0),
            \<lparr>ready = [1], held = [0], staged = [], next_id = 0\<rparr>)"
    by (simp add: evicting_collaborators_def core_defs)
  have bt: "ThrowTCFError evicting_collaborators (Some (ComputationError 1))
              \<lparr>ready = [1], held = [0], staged = [], next_id = 0\<rparr> =
            Some (ComputationError 1)"
    by (simp add: evicting_collaborators_def core_defs)
  have c: "workorder_HandleWorkOrderRequest evicting_collaborators ''seal'' ''abc''
             (getIndex evicting_collaborators 0)
             \<lparr>ready = [1], held = [0], staged = [], next_id = 0\<rparr> =
           ((None, 0, 3), \<lparr>ready = [1], held = [0], staged = [], next_id = 1\<rparr>)"
    by (simp add: evicting_collaborators_def core_defs)
  have ct: "ThrowTCFError evicting_collaborators None
              \<lparr>ready = [1], held = [0], staged = [], next_id = 1\<rparr> = None"
    by (simp add: evicting_collaborators_def core_defs)
  have f: "workorder_GetSerializedResponse evicting_collaborators ''seal'' 0 3
             (getIndex evicting_collaborators 0)
             \<lparr>ready = [1], held = [0], staged = [], next_id = 1\<rparr> =
           ((Some UnknownResponse, []), \<lparr>ready = [1], held = [0], staged = [], next_id = 1\<rparr>)"
    by (simp add: evicting_collaborators_def core_defs)
  have ft: "ThrowTCFError evicting_collaborators (Some UnknownResponse)
              \<lparr>ready = [1], held = [0], staged = [], next_id = 1\<rparr> = Some UnknownResponse"
    by (simp add: evicting_collaborators_def core_defs)
  have d: "ReadyEnclave_dtor evicting_collaborators 0
             \<lparr>ready = [1], held = [0], staged = [], next_id = 0\<rparr> =
             \<lparr>ready = [1, 0], held = [], staged = [], next_id = 0\<rparr>
         \<and> ReadyEnclave_dtor evicting_collaborators 0
             \<lparr>ready = [1], held = [0], staged = [], next_id = 1\<rparr> =
             \<lparr>ready = [1, 0], held = [], staged = [], next_id = 1\<rparr>
         \<and> getIndex evicting_collaborators 0 = 0"
    by (simp add: evicting_collaborators_def core_defs)
  have run: "HandleWorkOrderRequest evicting_collaborators ''seal'' [] pool2 =
     (Inl (ComputationError 1),
      [Call_GetReadyEnclave, Call_HandleWorkOrderRequest ''seal'' [] 0,
       Call_ThrowTCFError (Some (ComputationError 1)), Call_ReadyEnclave_dtor 0],
      \<lparr>ready = [1, 0], held = [], staged = [], next_id = 0\<rparr>)"
    by (simp add: evicting_collaborators_def core_defs)
  show ?thesis
    using a g b bt c ct f ft d run
      first_error_propagated_no_retry
        [where C = evicting_collaborators and sealed = "''seal''"
           and wa = pool0 and xa = PoolExhausted and ?wa1.0 = pool0 and reqa = "''abc''"
           and wb = pool2 and rb = 0
           and ?wb1.0 = "\<lparr>ready = [1], held = [0], staged = [], next_id = 0\<rparr>"
           and reqb = "[]" and eb = "Some (ComputationError 1)" and ridb = 0 and nb = 0
           and ?wb2.0 = "\<lparr>ready = [1], held = [0], staged = [], next_id = 0\<rparr>"
           and xb = "ComputationError 1"
           and wc = pool2 and rc = 0
           and ?wc1.0 = "\<lparr>ready = [1], held = [0], staged = [], next_id = 0\<rparr>"
           and reqc = "''abc''" and ec = None and ridc = 0 and nc = 3
           and ?wc2.0 = "\<lparr>ready = [1], held = [0], staged = [], next_id = 1\<rparr>"
           and ec' = "Some UnknownResponse" and respc = "[]"
           and ?wc3.0 = "\<lparr>ready = [1], held = [0], staged = [], next_id = 1\<rparr>"
           and xc = UnknownResponse
           and req = "[]" and ?w0.0 = pool2 and x = "ComputationError 1"
           and calls = "[Call_GetReadyEnclave, Call_HandleWorkOrderRequest ''seal'' [] 0,
                Call_ThrowTCFError (Some (ComputationError 1)), Call_ReadyEnclave_dtor 0]"
           and w' = "\<lparr>ready = [1, 0], held = [], staged = [], next_id = 0\<rparr>"]
    by simp
qed

theorem inputs_passed_through_unchanged_witness:
  "GetReadyEnclave (core_collaborators stub_compute stub_encode) pool2 =
     (Inr 0, \<lparr>ready = [1], held = [0], staged = [], next_id = 0\<rparr>)
   \<and> HandleWorkOrderRequest_call (core_collaborators stub_compute stub_encode)
       \<lparr>sealed_signup_data_buffer = ''seal'', serialized_request_buffer = ''abc''\<rparr> pool2 =
     ((Inr ''ccbbaa'',
       [Call_GetReadyEnclave, Call_HandleWorkOrderRequest ''seal'' ''abc'' 0,
        Call_ThrowTCFError None, Call_GetSerializedResponse ''seal'' 0 3 0,
        Call_ThrowTCFError None, Call_ReadyEnclave_dtor 0],
       \<lparr>ready = [1, 0], held = [], staged = [], next_id = 1\<rparr>),
      \<lparr>sealed_signup_data_buffer = ''seal'', serialized_request_buffer = ''abc''\<rparr>)"
proof -
  have a: "GetReadyEnclave (core_collaborators stub_compute stub_encode) pool2 =
       (Inr 0, \<lparr>ready = [1], held = [0], staged = [], next_id = 0\<rparr>)"
    by (simp add: core_defs)
  have b: "workorder_HandleWorkOrderRequest (core_collaborators stub_compute stub_encode)
        (sealed_signup_data_buffer
           \<lparr>sealed_signup_data_buffer = ''seal'', serialized_request_buffer = ''abc''\<rparr>)
        (serialized_request_buffer
           \<lparr>sealed_signup_data_buffer = ''seal'', serialized_request_buffer = ''abc''\<rparr>)
        (getIndex (core_collaborators stub_compute stub_encode) 0)
        \<lparr>ready = [1], held = [0], staged = [], next_id = 0\<rparr> =
       ((None, 0, 3), \<lparr>ready = [1], held = [0], staged = [(0, ''cba'')], next_id = 1\<rparr>)"
    by (simp add: core_defs)
  have c: "workorder_GetSerializedResponse (core_collaborators stub_compute stub_encode)
        (sealed_signup_data_buffer
           \<lparr>sealed_signup_data_buffer = ''seal'', serialized_request_buffer = ''abc''\<rparr>)
        0 3 (getIndex (core_collaborators stub_compute stub_encode) 0)
        \<lparr>ready = [1], held = [0], staged = [(0, ''cba'')], next_id = 1\<rparr> =
       ((None, ''ccbbaa''), \<lparr>ready = [1], held = [0], staged = [], next_id = 1\<rparr>)"
    by (simp add: core_defs)
  show ?thesis
    using a inputs_passed_through_unchanged [OF a b c, where g = rev and h = rev]
    by (simp add: core_collaborators_def release_def)
qed

theorem fetch_arguments_from_acquire_and_submit_witness:
  "HandleWorkOrderRequest (core_collaborators stub_compute stub_encode) ''seal'' ''abc'' pool2 =
     (Inr ''ccbbaa'',
      [Call_GetReadyEnclave, Call_HandleWorkOrderRequest ''seal'' ''abc'' 0,
       Call_ThrowTCFError None, Call_GetSerializedResponse ''seal'' 0 3 0,
       Call_ThrowTCFError None, Call_ReadyEnclave_dtor 0],
      \<lparr>ready = [1, 0], held = [], staged = [], next_id = 1\<rparr>)
   \<and> HandleWorkOrderRequest
       ((core_collaborators stub_compute stub_encode)
          \<lparr> workorder_GetSerializedResponse :=
              (\<lambda>s rid n i w.
                 if rid = 0 \<and> n = 3 \<and> i = 0
                 then workorder_GetSerializedResponse
                        (core_collaborators stub_compute stub_encode) s rid n i w
                 else ((Some InvalidHandle, []), w)) \<rparr>) ''seal'' ''abc'' pool2 =
     (Inr ''ccbbaa'',
      [Call_GetReadyEnclave, Call_HandleWorkOrderRequest ''seal'' ''abc'' 0,
       Call_ThrowTCFError None, Call_GetSerializedResponse ''seal'' 0 3 0,
       Call_ThrowTCFError None, Call_ReadyEnclave_dtor 0],
      \<lparr>ready = [1, 0], held = [], staged = [], next_id = 1\<rparr>)"
proof -
  have a: "GetReadyEnclave (core_collaborators stub_compute stub_encode) pool2 =
       (Inr 0, \<lparr>ready = [1], held = [0], staged = [], next_id = 0\<rparr>)"
    by (simp add: core_defs)
  have b: "workorder_HandleWorkOrderRequest (core_collaborators stub_compute stub_encode)
        ''seal'' ''abc'' (getIndex (core_collaborators stub_compute stub_encode) 0)
        \<lparr>ready = [1], held = [0], staged = [], next_id = 0\<rparr> =
       ((None, 0, 3), \<lparr>ready = [1], held = [0], staged = [(0, ''cba'')], next_id = 1\<rparr>)"
    by (simp add: core_defs)
  have c: "ThrowTCFError (core_collaborators stub_compute stub_encode) None
        \<lparr>ready = [1], held = [0], staged = [(0, ''cba'')], next_id = 1\<rparr> = None"
    by (simp add: core_defs)
  have d: "workorder_GetSerializedResponse (core_collaborators stub_compute stub_encode)
        ''seal'' 0 3 (getIndex (core_collaborators stub_compute stub_encode) 0)
        \<lparr>ready = [1], held = [0], staged = [(0, ''cba'')], next_id = 1\<rparr> =
       ((None, ''ccbbaa''), \<lparr>ready = [1], held = [0], staged = [], next_id = 1\<rparr>)"
    by (simp add: core_defs)
  have f: "(\<lambda>s rid n i w.
              if rid = 0 \<and> n = 3 \<and> i = 0
              then workorder_GetSerializedResponse
                     (core_collaborators stub_compute stub_encode) s rid n i w
              else ((Some InvalidHandle, []), w))
        ''seal'' 0 3 (getIndex (core_collaborators stub_compute stub_encode) 0)
        \<lparr>ready = [1], held = [0], staged = [(0, ''cba'')], next_id = 1\<rparr> =
       ((None, ''ccbbaa''), \<lparr>ready = [1], held = [0], staged = [], next_id = 1\<rparr>)"
    by (simp add: core_defs)
  show ?thesis
    using fetch_arguments_from_acquire_and_submit
      [where F = "\<lambda>s rid n i w.
                 if rid = 0 \<and> n = 3 \<and> i = 0
                 then workorder_GetSerializedResponse
                        (core_collaborators stub_compute stub_encode) s rid n i w
                 else ((Some InvalidHandle, []), w)", OF a b c d f]
    by (simp add: core_collaborators_def release_def)
qed

theorem fetch_receives_sealed_signup_data_witness:
  "fst (HandleWorkOrderRequest (core_collaborators stub_compute stub_encode)
          ''seal'' ''abc'' pool2) = Inr ''ccbbaa''
   \<and> snd (snd (HandleWorkOrderRequest (core_collaborators stub_compute stub_encode)
          ''seal'' ''abc'' pool2)) = \<lparr>ready = [1, 0], held = [], staged = [], next_id = 1\<rparr>
   \<and> filter is_fetch (fst (snd (HandleWorkOrderRequest
       (core_collaborators stub_compute stub_encode) ''seal'' ''abc'' pool2))) =
     [Call_GetSerializedResponse ''seal'' 0 3 0]
   \<and> filter is_submit (fst (snd (HandleWorkOrderRequest
       (core_collaborators stub_compute stub_encode) ''seal'' ''abc'' pool2))) =
     [Call_HandleWorkOrderRequest ''seal'' ''abc'' 0]
   \<and> HandleWorkOrderRequest
       ((core_collaborators stub_compute stub_encode)
          \<lparr> workorder_GetSerializedResponse :=
              (\<lambda>s rid n i w.
                 if s = ''seal''
                 then workorder_GetSerializedResponse
                        (core_collaborators stub_compute stub_encode) s rid n i w
                 else ((Some InvalidHandle, []), w)) \<rparr>) ''seal'' ''abc'' pool2 =
     HandleWorkOrderRequest (core_collaborators stub_compute stub_encode)
       ''seal'' ''abc'' pool2"
proof -
  have a: "GetReadyEnclave (core_collaborators stub_compute stub_encode) pool2 =
       (Inr 0, \<lparr>ready = [1], held = [0], staged = [], next_id = 0\<rparr>)"
    by (simp add: core_defs)
  have b: "workorder_HandleWorkOrderRequest (core_collaborators stub_compute stub_encode)
        ''seal'' ''abc'' (getIndex (core_collaborators stub_compute stub_encode) 0)
        \<lparr>ready = [1], held = [0], staged = [], next_id = 0\<rparr> =
       ((None, 0, 3), \<lparr>ready = [1], held = [0], staged = [(0, ''cba'')], next_id = 1\<rparr>)"
    by (simp add: core_defs)
  have c: "ThrowTCFError (core_collaborators stub_compute stub_encode) None
        \<lparr>ready = [1], held = [0], staged = [(0, ''cba'')], next_id = 1\<rparr> = None"
    by (simp add: core_defs)
  have d: "workorder_GetSerializedResponse (core_collaborators stub_compute stub_encode)
        ''seal'' 0 3 (getIndex (core_collaborators stub_compute stub_encode) 0)
        \<lparr>ready = [1], held = [0], staged = [(0, ''cba'')], next_id = 1\<rparr> =
       ((None, ''ccbbaa''), \<lparr>ready = [1], held = [0], staged = [], next_id = 1\<rparr>)"
    by (simp add: core_defs)
  have f: "\<forall>rid' n' i w.
             (\<lambda>s rid n i w.
                if s = ''seal''
                then workorder_GetSerializedResponse
                       (core_collaborators stub_compute stub_encode) s rid n i w
                else ((Some InvalidHandle, []), w)) ''seal'' rid' n' i w =
             workorder_GetSerializedResponse (core_collaborators stub_compute stub_encode)
               ''seal'' rid' n' i w"
    by simp
  show ?thesis
    using fetch_receives_sealed_signup_data
      [where F = "\<lambda>s rid n i w.
                 if s = ''seal''
                 then workorder_GetSerializedResponse
                        (core_collaborators stub_compute stub_encode) s rid n i w
                 else ((Some InvalidHandle, []), w)", OF a b c d f]
    by (simp add: core_collaborators_def release_def)
qed

theorem take_put_roundtrip_witness:
  "fst (take_store (fst (put_store ''cba'' pool2)) (snd (put_store ''cba'' pool2))) = Inr ''cba''"
  using take_put_roundtrip [of "''cba''" pool2]
  by simp

theorem retrieval_exactly_once_witness:
  "take_store 0 \<lparr>ready = [1], held = [0], staged = [(0, ''cba'')], next_id = 1\<rparr> =
     (Inr ''cba'', \<lparr>ready = [1], held = [0], staged = [], next_id = 1\<rparr>)
   \<and> take_store 0 \<lparr>ready = [1], held = [0], staged = [], next_id = 1\<rparr> =
     (Inl UnknownResponse, \<lparr>ready = [1], held = [0], staged = [], next_id = 1\<rparr>)
   \<and> fetch stub_encode 0 0 3 \<lparr>ready = [1], held = [0], staged = [], next_id = 1\<rparr> =
     (Inl UnknownResponse, \<lparr>ready = [1], held = [0], staged = [], next_id = 1\<rparr>)"
proof -
  have h: "take_store 0 \<lparr>ready = [1], held = [0], staged = [(0, ''cba'')], next_id = 1\<rparr> =
     (Inr ''cba'', \<lparr>ready = [1], held = [0], staged = [], next_id = 1\<rparr>)"
    by (simp add: core_defs)
  have m: "(0::int) \<in> set (held \<lparr>ready = [1], held = [0], staged = [], next_id = 1\<rparr>)"
    by simp
  from h have d: "take_store 0 \<lparr>ready = [1], held = [0], staged = [(0, ''cba'')], next_id = 1\<rparr> =
       (Inr ''cba'', \<lparr>ready = [1], held = [0], staged = [], next_id = 1\<rparr>)
     \<or> fetch stub_encode 0 0 3 \<lparr>ready = [1], held = [0], staged = [(0, ''cba'')], next_id = 1\<rparr> =
       (Inr ''ccbbaa'', \<lparr>ready = [1], held = [0], staged = [], next_id = 1\<rparr>)
     \<or> (map_of (staged \<lparr>ready = [1], held = [0], staged = [(0, ''cba'')], next_id = 1\<rparr>) 0 = None
        \<and> \<lparr>ready = [1], held = [0], staged = [], next_id = 1\<rparr> =
          \<lparr>ready = [1], held = [0], staged = [(0, ''cba'')], next_id = 1\<rparr>)"
    by (rule disjI1)
  show ?thesis
    using h m retrieval_exactly_once [OF d, where ?h' = 0 and ?n' = 3]
    by simp
qed

theorem fetch_wrong_size_fails_witness:
  "submit stub_compute 0 ''seal'' ''abc'' \<lparr>ready = [1], held = [0], staged = [], next_id = 0\<rparr> =
     (Inr (0, 3), \<lparr>ready = [1], held = [0], staged = [(0, ''cba'')], next_id = 1\<rparr>)
   \<and> (2::nat) \<noteq> 3
   \<and> fetch stub_encode 0 0 2 \<lparr>ready = [1], held = [0], staged = [(0, ''cba'')], next_id = 1\<rparr> =
     (Inl SizeMismatch, \<lparr>ready = [1], held = [0], staged = [(0, ''cba'')], next_id = 1\<rparr>)"
proof -
  have a: "submit stub_compute 0 ''seal'' ''abc''
             \<lparr>ready = [1], held = [0], staged = [], next_id = 0\<rparr> =
     (Inr (0, 3), \<lparr>ready = [1], held = [0], staged = [(0, ''cba'')], next_id = 1\<rparr>)"
    by (simp add: core_defs)
  have b: "(2::nat) \<noteq> 3"
    by simp
  show ?thesis
    using a b fetch_wrong_size_fails [OF a b, of stub_encode]
    by simp
qed

theorem submit_failure_atomic_witness:
  "acquire pool2 = (Inr 0, \<lparr>ready = [1], held = [0], staged = [], next_id = 0\<rparr>)
   \<and> submit stub_compute 0 ''seal'' [] \<lparr>ready = [1], held = [0], staged = [], next_id = 0\<rparr> =
       (Inl (ComputationError 1), \<lparr>ready = [1], held = [0], staged = [], next_id = 0\<rparr>)
   \<and> handle_work_order stub_compute stub_encode ''seal'' [] pool2 =
       (Inl (ComputationError 1),
        [Call_GetReadyEnclave, Call_HandleWorkOrderRequest ''seal'' [] 0,
         Call_ThrowTCFError (Some (ComputationError 1)), Call_ReadyEnclave_dtor 0],
        \<lparr>ready = [1, 0], held = [], staged = [], next_id = 0\<rparr>)"
proof -
  have a: "acquire pool2 = (Inr 0, \<lparr>ready = [1], held = [0], staged = [], next_id = 0\<rparr>)"
    by (simp add: core_defs)
  have b: "submit stub_compute 0 ''seal'' []
             \<lparr>ready = [1], held = [0], staged = [], next_id = 0\<rparr> =
       (Inl (ComputationError 1), \<lparr>ready = [1], held = [0], staged = [], next_id = 0\<rparr>)"
    by (simp add: core_defs)
  show ?thesis
    using a b submit_failure_atomic [OF a b, of stub_encode]
    by (simp add: pool2_def)
qed

end
